theory Spec2Isabelle
  imports Complex_Main "HOL-Library.Word"
begin

unbundle bit_operations_syntax

section \<open>Asset generation pipeline (tools/scripts/generate_assets.py)\<close>

text \<open>
  Conventions of the embedding.
  \<^item> Python \<open>str\<close> values are \<open>string\<close>, read as their UTF-8 bytes.
  \<^item> \<open>time.time()\<close> is a \<open>real\<close> number of seconds; \<open>asyncio.sleep d\<close> moves the clock
    forward by \<open>d\<close>.
  \<^item> An exception is a value of \<open>py_error\<close>; a function that may raise returns a sum,
    \<open>Inl\<close> carrying the exception.
\<close>

subsection \<open>Exceptions\<close>

datatype py_error =
    IndexError
  | KeyError string
  | ValueError string
  | TypeError string
  | OSError string

subsection \<open>Bytes and digests\<close>

text \<open>MD5 (RFC 1321), the function behind \<open>hashlib.md5\<close>.\<close>

type_synonym byte = "8 word"

definition encode_utf8 :: "string \<Rightarrow> byte list" where
  "encode_utf8 s = map (\<lambda>c. of_nat (of_char c)) s"

definition hex_digit :: "nat \<Rightarrow> char" where
  "hex_digit n = ''0123456789abcdef'' ! (n mod 16)"

definition hex_byte :: "byte \<Rightarrow> string" where
  "hex_byte b = [hex_digit (unat b div 16), hex_digit (unat b mod 16)]"

definition hex_string :: "byte list \<Rightarrow> string" where
  "hex_string bs = concat (map hex_byte bs)"

definition le_bytes32 :: "32 word \<Rightarrow> byte list" where
  "le_bytes32 w = map (\<lambda>i. ucast (drop_bit (8 * i) w)) [0, 1, 2, 3]"

definition le_word32 :: "byte list \<Rightarrow> 32 word" where
  "le_word32 bs = foldr (\<lambda>b acc. ucast b OR push_bit 8 acc) bs 0"

definition be_word32 :: "byte list \<Rightarrow> 32 word" where
  "be_word32 bs = foldl (\<lambda>acc b. push_bit 8 acc OR ucast b) 0 bs"

definition be_bytes32 :: "32 word \<Rightarrow> byte list" where
  "be_bytes32 w = map (\<lambda>i. ucast (drop_bit (8 * i) w)) [3, 2, 1, 0]"

definition bit_length64 :: "byte list \<Rightarrow> 64 word" where
  "bit_length64 m = of_nat (8 * length m)"

definition zero_padding :: "byte list \<Rightarrow> byte list" where
  "zero_padding m = replicate (nat ((55 - int (length m)) mod 64)) 0"

definition blocks64 :: "byte list \<Rightarrow> byte list list" where
  "blocks64 p = map (\<lambda>k. take 64 (drop (64 * k) p)) [0..<length p div 64]"

definition words_of :: "(byte list \<Rightarrow> 32 word) \<Rightarrow> byte list \<Rightarrow> 32 word list" where
  "words_of conv blk = map (\<lambda>j. conv (take 4 (drop (4 * j) blk))) [0..<16]"

definition md5_pad :: "byte list \<Rightarrow> byte list" where
  "md5_pad m = m @ [0x80] @ zero_padding m @
     map (\<lambda>i. ucast (drop_bit (8 * i) (bit_length64 m))) [0..<8]"

definition md5_s :: "nat list" where
  "md5_s = [7, 12, 17, 22, 7, 12, 17, 22, 7, 12, 17, 22, 7, 12, 17, 22,
            5, 9, 14, 20, 5, 9, 14, 20, 5, 9, 14, 20, 5, 9, 14, 20,
            4, 11, 16, 23, 4, 11, 16, 23, 4, 11, 16, 23, 4, 11, 16, 23,
            6, 10, 15, 21, 6, 10, 15, 21, 6, 10, 15, 21, 6, 10, 15, 21]"

definition md5_K :: "32 word list" where
  "md5_K = [0xd76aa478, 0xe8c7b756, 0x242070db, 0xc1bdceee,
            0xf57c0faf, 0x4787c62a, 0xa8304613, 0xfd469501,
            0x698098d8, 0x8b44f7af, 0xffff5bb1, 0x895cd7be,
            0x6b901122, 0xfd987193, 0xa679438e, 0x49b40821,
            0xf61e2562, 0xc040b340, 0x265e5a51, 0xe9b6c7aa,
            0xd62f105d, 0x02441453, 0xd8a1e681, 0xe7d3fbc8,
            0x21e1cde6, 0xc33707d6, 0xf4d50d87, 0x455a14ed,
            0xa9e3e905, 0xfcefa3f8, 0x676f02d9, 0x8d2a4c8a,
            0xfffa3942, 0x8771f681, 0x6d9d6122, 0xfde5380c,
            0xa4beea44, 0x4bdecfa9, 0xf6bb4b60, 0xbebfbc70,
            0x289b7ec6, 0xeaa127fa, 0xd4ef3085, 0x04881d05,
            0xd9d4d039, 0xe6db99e5, 0x1fa27cf8, 0xc4ac5665,
            0xf4292244, 0x432aff97, 0xab9423a7, 0xfc93a039,
            0x655b59c3, 0x8f0ccc92, 0xffeff47d, 0x85845dd1,
            0x6fa87e4f, 0xfe2ce6e0, 0xa3014314, 0x4e0811a1,
            0xf7537e82, 0xbd3af235, 0x2ad7d2bb, 0xeb86d391]"

type_synonym md5_state = "32 word \<times> 32 word \<times> 32 word \<times> 32 word"

definition md5_round :: "32 word list \<Rightarrow> md5_state \<Rightarrow> nat \<Rightarrow> md5_state" where
  "md5_round M st i =
     (case st of (a, b, c, d) \<Rightarrow>
        (let (f, g) =
               (if i < 16 then ((b AND c) OR (NOT b AND d), i)
                else if i < 32 then ((d AND b) OR (NOT d AND c), (5 * i + 1) mod 16)
                else if i < 48 then (b XOR c XOR d, (3 * i + 5) mod 16)
                else (c XOR (b OR NOT d), (7 * i) mod 16));
             f' = f + a + md5_K ! i + M ! g
         in (d, b + word_rotl (md5_s ! i) f', b, c)))"

definition md5_block :: "md5_state \<Rightarrow> byte list \<Rightarrow> md5_state" where
  "md5_block st blk =
     (case st of (a0, b0, c0, d0) \<Rightarrow>
        (case foldl (md5_round (words_of le_word32 blk)) st [0..<64] of
           (a, b, c, d) \<Rightarrow> (a0 + a, b0 + b, c0 + c, d0 + d)))"

definition md5_digest :: "byte list \<Rightarrow> byte list" where
  "md5_digest m =
     (case foldl md5_block (0x67452301, 0xefcdab89, 0x98badcfe, 0x10325476)
             (blocks64 (md5_pad m)) of
        (a, b, c, d) \<Rightarrow> le_bytes32 a @ le_bytes32 b @ le_bytes32 c @ le_bytes32 d)"

definition md5_hexdigest :: "byte list \<Rightarrow> string" where
  "md5_hexdigest m = hex_string (md5_digest m)"

text \<open>
  SHA-256 (FIPS 180-4), the function behind \<open>hashlib.sha256\<close>. The round constants
  and the initial hash value are written in decimal.
\<close>

definition sha256_pad :: "byte list \<Rightarrow> byte list" where
  "sha256_pad m = m @ [0x80] @ zero_padding m @
     map (\<lambda>i. ucast (drop_bit (8 * i) (bit_length64 m))) (rev [0..<8])"

definition sha256_K :: "32 word list" where
  "sha256_K = [1116352408, 1899447441, 3049323471, 3921009573,
               961987163, 1508970993, 2453635748, 2870763221,
               3624381080, 310598401, 607225278, 1426881987,
               1925078388, 2162078206, 2614888103, 3248222580,
               3835390401, 4022224774, 264347078, 604807628,
               770255983, 1249150122, 1555081692, 1996064986,
               2554220882, 2821834349, 2952996808, 3210313671,
               3336571891, 3584528711, 113926993, 338241895,
               666307205, 773529912, 1294757372, 1396182291,
               1695183700, 1986661051, 2177026350, 2456956037,
               2730485921, 2820302411, 3259730800, 3345764771,
               3516065817, 3600352804, 4094571909, 275423344,
               430227734, 506948616, 659060556, 883997877,
               958139571, 1322822218, 1537002063, 1747873779,
               1955562222, 2024104815, 2227730452, 2361852424,
               2428436474, 2756734187, 3204031479, 3329325298]"

definition sha256_H0 :: "32 word list" where
  "sha256_H0 = [1779033703, 3144134277, 1013904242, 2773480762,
                1359893119, 2600822924, 528734635, 1541459225]"

definition sha256_extend :: "32 word list \<Rightarrow> nat \<Rightarrow> 32 word list" where
  "sha256_extend w i =
     (let x = w ! (i - 15); y = w ! (i - 2);
          s0 = word_rotr 7 x XOR word_rotr 18 x XOR drop_bit 3 x;
          s1 = word_rotr 17 y XOR word_rotr 19 y XOR drop_bit 10 y
      in w @ [w ! (i - 16) + s0 + w ! (i - 7) + s1])"

definition sha256_schedule :: "byte list \<Rightarrow> 32 word list" where
  "sha256_schedule blk = foldl sha256_extend (words_of be_word32 blk) [16..<64]"

definition sha256_round :: "32 word list \<Rightarrow> 32 word list \<Rightarrow> nat \<Rightarrow> 32 word list" where
  "sha256_round w v i =
     (case v of
        [a, b, c, d, e, f, g, h] \<Rightarrow>
          (let S1 = word_rotr 6 e XOR word_rotr 11 e XOR word_rotr 25 e;
               ch = (e AND f) XOR (NOT e AND g);
               t1 = h + S1 + ch + sha256_K ! i + w ! i;
               S0 = word_rotr 2 a XOR word_rotr 13 a XOR word_rotr 22 a;
               maj = (a AND b) XOR (a AND c) XOR (b AND c);
               t2 = S0 + maj
           in [t1 + t2, a, b, c, d + t1, e, f, g])
      | _ \<Rightarrow> v)"

definition sha256_block :: "32 word list \<Rightarrow> byte list \<Rightarrow> 32 word list" where
  "sha256_block hs blk =
     map2 (+) hs (foldl (sha256_round (sha256_schedule blk)) hs [0..<64])"

definition sha256_digest :: "byte list \<Rightarrow> byte list" where
  "sha256_digest m =
     concat (map be_bytes32 (foldl sha256_block sha256_H0 (blocks64 (sha256_pad m))))"

definition sha256_hexdigest :: "byte list \<Rightarrow> string" where
  "sha256_hexdigest m = hex_string (sha256_digest m)"

subsection \<open>RateLimiter\<close>

record RateLimiter =
  requests_per_minute :: int
  requests :: "real list"

text \<open>\<open>RateLimiter.__init__\<close>: stores the quota, starts with no recorded request.\<close>

definition RateLimiter_init :: "int \<Rightarrow> RateLimiter" where
  "RateLimiter_init rpm = \<lparr>requests_per_minute = rpm, requests = []\<rparr>"

text \<open>
  \<open>RateLimiter.wait\<close>, called when the clock reads \<open>now\<close>. The result is the number of
  seconds slept (\<open>0\<close> when the call does not sleep), or the exception raised by
  \<open>self.requests[0]\<close> on an empty list; the limiter is returned as the call leaves it.
  The pruned list is assigned before the length test, the timestamp appended is the
  \<open>now\<close> read on entry.
\<close>

definition wait :: "real \<Rightarrow> RateLimiter \<Rightarrow> (py_error + real) \<times> RateLimiter" where
  "wait now rl =
     (let reqs = filter (\<lambda>req_time. now - req_time < 60) (requests rl);
          rl1 = rl\<lparr>requests := reqs\<rparr>
      in if requests_per_minute rl \<le> int (length reqs) then
           (case reqs of
              [] \<Rightarrow> (Inl IndexError, rl1)
            | oldest # _ \<Rightarrow>
                (let wait_time = 60 - (now - oldest)
                 in (Inr (if wait_time > 0 then wait_time else 0),
                     rl1\<lparr>requests := reqs @ [now]\<rparr>)))
         else (Inr 0, rl1\<lparr>requests := reqs @ [now]\<rparr>))"

text \<open>
  A serialized use of one limiter: the calls enter \<open>wait\<close> at the clock readings given,
  one after the other. \<open>admissions\<close> lists the instants at which the calls return
  (entry time plus the time slept); a call that raises ends the run.
\<close>

fun admissions :: "RateLimiter \<Rightarrow> real list \<Rightarrow> real list" where
  "admissions rl [] = []"
| "admissions rl (now # nows) =
     (case wait now rl of
        (Inl e, rl') \<Rightarrow> []
      | (Inr slept, rl') \<Rightarrow> (now + slept) # admissions rl' nows)"

text \<open>The calls are serialized when each one enters after the previous one has returned.\<close>

fun serialized :: "real list \<Rightarrow> real list \<Rightarrow> bool" where
  "serialized (n1 # n2 # nows) (a1 # as) = (a1 \<le> n2 \<and> serialized (n2 # nows) as)"
| "serialized _ _ = True"

text \<open>Number of admissions in the 60-second window that starts at \<open>t\<close>.\<close>

definition in_window :: "real \<Rightarrow> real list \<Rightarrow> nat" where
  "in_window t ts = length (filter (\<lambda>a. t \<le> a \<and> a < t + 60) ts)"

subsection \<open>Configuration (\<open>CONFIG\<close>)\<close>

datatype service = nanobanana | stability | midjourney | elevenlabs

fun service_name :: "service \<Rightarrow> string" where
  "service_name nanobanana = ''nanobanana''"
| "service_name stability = ''stability''"
| "service_name midjourney = ''midjourney''"
| "service_name elevenlabs = ''elevenlabs''"

text \<open>\<open>CONFIG['services'][s]['rate_limit']\<close>, requests per minute.\<close>

fun rate_limit :: "service \<Rightarrow> int" where
  "rate_limit nanobanana = 10"
| "rate_limit stability = 150"
| "rate_limit midjourney = 5"
| "rate_limit elevenlabs = 20"

text \<open>\<open>CONFIG['output_dirs']\<close>; a key that is absent raises \<open>KeyError\<close>.\<close>

definition output_dirs :: "string \<rightharpoonup> string" where
  "output_dirs = map_of
     [(''2d'', ''assets/generated/2d''),
      (''3d'', ''assets/generated/3d''),
      (''audio'', ''assets/generated/audio''),
      (''metadata'', ''assets/generated/metadata'')]"

subsection \<open>AssetRequest and GeneratedAsset\<close>

record AssetRequest =
  prompt :: string
  type :: string
  category :: string
  style :: string
  width :: int
  height :: int
  duration :: real
  quality :: real
  tags :: "string list"
  metadata :: "(string \<times> string) list"

text \<open>
  One element of the \<open>assets\<close> array of the configuration file, as \<open>json.load\<close> returns
  it. An object is given by the values of the keys that are fields of \<open>AssetRequest\<close>
  (\<open>None\<close> for an absent key) and by the list of its other keys. The values are taken
  as having the types the fields are annotated with (the dataclass does not check them).
\<close>

record json_object =
  item_prompt :: "string option"
  item_type :: "string option"
  item_category :: "string option"
  item_style :: "string option"
  item_width :: "int option"
  item_height :: "int option"
  item_duration :: "real option"
  item_quality :: "real option"
  item_tags :: "string list option"
  item_metadata :: "(string \<times> string) list option"
  item_other_keys :: "string list"

datatype item = Object json_object | NotAnObject

text \<open>
  \<open>AssetRequest(**item)\<close>: the generated \<open>__init__\<close> and \<open>__post_init__\<close>. A key that is
  not a field, a missing \<open>prompt\<close>, \<open>type\<close> or \<open>category\<close>, and an item that is not a
  mapping raise \<open>TypeError\<close>. The value of \<open>type\<close> is not examined.
\<close>

definition or_default :: "'a option \<Rightarrow> 'a \<Rightarrow> 'a" where
  "or_default v d = (case v of None \<Rightarrow> d | Some x \<Rightarrow> x)"

fun AssetRequest_init :: "item \<Rightarrow> py_error + AssetRequest" where
  "AssetRequest_init NotAnObject = Inl (TypeError ''argument after ** must be a mapping'')"
| "AssetRequest_init (Object obj) =
     (case item_other_keys obj of
        k # _ \<Rightarrow> Inl (TypeError (''unexpected keyword argument '' @ k))
      | [] \<Rightarrow>
         (case (item_prompt obj, item_type obj, item_category obj) of
            (Some p, Some t, Some c) \<Rightarrow>
              Inr \<lparr>prompt = p, type = t, category = c,
                   style = or_default (item_style obj) ''cyberpunk'',
                   width = or_default (item_width obj) 512,
                   height = or_default (item_height obj) 512,
                   duration = or_default (item_duration obj) 2,
                   quality = or_default (item_quality obj) (8 / 10),
                   tags = or_default (item_tags obj) [],
                   metadata = or_default (item_metadata obj) []\<rparr>
          | _ \<Rightarrow> Inl (TypeError ''missing required positional argument'')))"

text \<open>The metadata dictionary built by \<open>_save_asset\<close> (the sidecar document).\<close>

record sidecar =
  generation_service :: string
  original_request :: AssetRequest
  file_format :: string
  sidecar_file_size :: nat
  sidecar_checksum :: string
  sidecar_created_at :: real
  version :: string

record GeneratedAsset =
  asset_id :: string
  request :: AssetRequest
  file_path :: string
  service_used :: string
  generation_time :: real
  file_size :: nat
  checksum :: string
  asset_metadata :: sidecar
  created_at :: real

text \<open>The dictionary written by \<open>save_generation_report\<close>.\<close>

record report =
  timestamp :: real
  total_assets :: nat
  successful_generations :: nat
  assets :: "GeneratedAsset list"

subsection \<open>The outside world and the state of a run\<close>

text \<open>
  What an HTTP exchange gives back to the caller: an exception raised inside the
  \<open>try\<close> block (connection error, body that is not the expected JSON, missing key,
  invalid base64), or the status code with the decoded content of the body.
\<close>

datatype 'a response = Raises py_error | Status int 'a

text \<open>
  The remote services and the file system, as functions (a test stub is one such
  value). \<open>midjourney_jobs w job n\<close> is the answer to poll number \<open>n\<close> of the job: the
  value of \<open>data['status']\<close> and what a \<open>GET\<close> of \<open>data['image_url']\<close> answers.
  \<open>writable w path\<close> tells whether \<open>open(path, 'w')\<close> succeeds. \<open>read_config w path\<close> is
  \<open>None\<close> when the configuration file does not exist.
\<close>

datatype config_data =
    Unreadable py_error
  | Document "item list option"

record world =
  nanobanana_api :: "AssetRequest \<Rightarrow> byte list response"
  stability_api :: "AssetRequest \<Rightarrow> byte list list response"
  midjourney_api :: "AssetRequest \<Rightarrow> string response"
  midjourney_jobs :: "string \<Rightarrow> nat \<Rightarrow> (string \<times> byte list response) response"
  writable :: "string \<Rightarrow> bool"
  read_config :: "string \<rightharpoonup> config_data"

datatype file_content =
    Binary "byte list"
  | Sidecar sidecar
  | Report report

text \<open>
  The messages printed, one constructor for each; the four lines \<open>main\<close> prints before
  the batch are one message, its two closing lines another (it carries the number of
  assets reported as generated successfully).
\<close>

datatype line =
    Starting_generation nat
  | Failed_to_generate_asset_n nat py_error
  | Generating string string
  | Generated string real
  | Failed_to_generate_asset py_error
  | API_error service int
  | Generation_failed service py_error
  | Job_failed string
  | Polling_error py_error
  | Not_yet_implemented_3D string
  | Not_yet_implemented_audio string
  | Rate_limiting real
  | Report_saved string
  | Failed_to_load py_error
  | Config_not_found string
  | No_valid_requests
  | Pipeline_started string string nat
  | Completed nat

text \<open>The outbound requests, in the order they are sent.\<close>

datatype call = Post service | Get_job string | Get_image string

text \<open>
  The fields of \<open>AssetGenerator\<close> (\<open>project_root\<close>, \<open>generated_assets\<close>,
  \<open>rate_limiters\<close>) together with the clock, the files written, the standard output
  and the requests sent.
\<close>

record state =
  project_root :: string
  generated_assets :: "GeneratedAsset option list"
  rate_limiters :: "service \<Rightarrow> RateLimiter"
  clock :: real
  files :: "string \<rightharpoonup> file_content"
  stdout :: "line list"
  sent :: "call list"

definition print :: "line \<Rightarrow> state \<Rightarrow> state" where
  "print l st = st\<lparr>stdout := stdout st @ [l]\<rparr>"

definition sleep :: "real \<Rightarrow> state \<Rightarrow> state" where
  "sleep d st = st\<lparr>clock := clock st + d\<rparr>"

definition send :: "call \<Rightarrow> state \<Rightarrow> state" where
  "send c st = st\<lparr>sent := sent st @ [c]\<rparr>"

text \<open>\<open>AssetGenerator.__init__\<close>, started when the clock reads \<open>now\<close>.\<close>

definition AssetGenerator_init :: "string \<Rightarrow> real \<Rightarrow> state" where
  "AssetGenerator_init dir now =
     \<lparr>project_root = dir, generated_assets = [],
      rate_limiters = (\<lambda>s. RateLimiter_init (rate_limit s)),
      clock = now, files = Map.empty, stdout = [], sent = []\<rparr>"

text \<open>\<open>await self.rate_limiters[s].wait()\<close>.\<close>

definition limiter_wait :: "service \<Rightarrow> state \<Rightarrow> (py_error + unit) \<times> state" where
  "limiter_wait s st =
     (case wait (clock st) (rate_limiters st s) of
        (Inl e, rl) \<Rightarrow> (Inl e, st\<lparr>rate_limiters := (rate_limiters st)(s := rl)\<rparr>)
      | (Inr slept, rl) \<Rightarrow>
          (let st1 = st\<lparr>rate_limiters := (rate_limiters st)(s := rl)\<rparr>
           in (Inr (), if slept > 0 then sleep slept (print (Rate_limiting slept) st1) else st1)))"

subsection \<open>ArtifactStore: \<open>_generate_asset_id\<close> and \<open>_save_asset\<close>\<close>

text \<open>\<open>str\<close> of an integer: its decimal digits, with a sign when negative.\<close>

fun digits :: "nat \<Rightarrow> string" where
  "digits n =
     (if n < 10 then [''0123456789'' ! n]
      else digits (n div 10) @ [''0123456789'' ! (n mod 10)])"

definition str_int :: "int \<Rightarrow> string" where
  "str_int i = (if i < 0 then ''-'' @ digits (nat (- i)) else digits (nat i))"

text \<open>\<open>int\<close> of a float truncates towards zero.\<close>

definition py_int :: "real \<Rightarrow> int" where
  "py_int x = (if 0 \<le> x then \<lfloor>x\<rfloor> else \<lceil>x\<rceil>)"

text \<open>\<open>_generate_asset_id\<close>, with \<open>now\<close> the value of \<open>time.time()\<close>.\<close>

definition generate_asset_id :: "real \<Rightarrow> AssetRequest \<Rightarrow> string" where
  "generate_asset_id now req =
     (let content = prompt req @ ''-'' @ type req @ ''-'' @ category req
                      @ ''-'' @ style req;
          hash_input = encode_utf8 content;
          short_hash = take 8 (md5_hexdigest hash_input);
          timestamp = str_int (py_int now)
      in type req @ ''_'' @ category req @ ''_'' @ short_hash @ ''_'' @ timestamp)"

text \<open>\<open>a / b\<close> on paths, then \<open>str\<close>, for a relative \<open>b\<close>.\<close>

definition path_join :: "string \<Rightarrow> string \<Rightarrow> string" where
  "path_join a b = a @ ''/'' @ b"

text \<open>
  \<open>_save_asset\<close>. It raises \<open>KeyError\<close> when \<open>request.type\<close> is not a key of
  \<open>CONFIG['output_dirs']\<close> and \<open>OSError\<close> when a file cannot be opened for writing; the
  artifact is written before the sidecar.
\<close>

definition save_asset ::
  "world \<Rightarrow> AssetRequest \<Rightarrow> byte list \<Rightarrow> string \<Rightarrow> string \<Rightarrow> state
     \<Rightarrow> (py_error + GeneratedAsset) \<times> state" where
  "save_asset w req data format service st =
     (let asset_id = generate_asset_id (clock st) req
      in case output_dirs (type req) of
           None \<Rightarrow> (Inl (KeyError (type req)), st)
         | Some dir \<Rightarrow>
            (let output_dir = path_join (project_root st) dir;
                 file_path = path_join output_dir (asset_id @ ''.'' @ format)
             in if \<not> writable w file_path then (Inl (OSError file_path), st)
                else
                 (let st1 = st\<lparr>files := (files st)(file_path \<mapsto> Binary data)\<rparr>;
                      checksum = sha256_hexdigest data;
                      metadata =
                        \<lparr>generation_service = service, original_request = req,
                         file_format = format, sidecar_file_size = length data,
                         sidecar_checksum = checksum, sidecar_created_at = clock st,
                         version = ''1.0''\<rparr>;
                      metadata_path =
                        path_join (path_join (project_root st) ''assets/generated/metadata'')
                          (asset_id @ ''.json'')
                  in if \<not> writable w metadata_path then (Inl (OSError metadata_path), st1)
                     else
                      (Inr \<lparr>asset_id = asset_id, request = req, file_path = file_path,
                            service_used = service, generation_time = 0,
                            file_size = length data, checksum = checksum,
                            asset_metadata = metadata, created_at = clock st\<rparr>,
                       st1\<lparr>files := (files st1)(metadata_path \<mapsto> Sidecar metadata)\<rparr>))))"

subsection \<open>ProviderClient: the three image services\<close>

text \<open>
  Each generator waits on its limiter outside the \<open>try\<close> (an exception of the limiter
  leaves the function), sends one request and handles every exception of the exchange
  and of \<open>_save_asset\<close> by printing it and returning \<open>None\<close>.
\<close>

definition generate_with_nanobanana ::
  "world \<Rightarrow> AssetRequest \<Rightarrow> state \<Rightarrow> (py_error + GeneratedAsset option) \<times> state" where
  "generate_with_nanobanana w req st =
     (case limiter_wait nanobanana st of
        (Inl e, st1) \<Rightarrow> (Inl e, st1)
      | (Inr _, st1) \<Rightarrow>
         (let st2 = send (Post nanobanana) st1
          in case nanobanana_api w req of
               Raises e \<Rightarrow> (Inr None, print (Generation_failed nanobanana e) st2)
             | Status code image_data \<Rightarrow>
                 if code = 200 then
                   (case save_asset w req image_data ''png'' ''nanobanana'' st2 of
                      (Inl e, st3) \<Rightarrow> (Inr None, print (Generation_failed nanobanana e) st3)
                    | (Inr asset, st3) \<Rightarrow> (Inr (Some asset), st3))
                 else (Inr None, print (API_error nanobanana code) st2)))"

text \<open>An empty \<open>artifacts\<close> array gives \<open>None\<close> without a message.\<close>

definition generate_with_stability ::
  "world \<Rightarrow> AssetRequest \<Rightarrow> state \<Rightarrow> (py_error + GeneratedAsset option) \<times> state" where
  "generate_with_stability w req st =
     (case limiter_wait stability st of
        (Inl e, st1) \<Rightarrow> (Inl e, st1)
      | (Inr _, st1) \<Rightarrow>
         (let st2 = send (Post stability) st1
          in case stability_api w req of
               Raises e \<Rightarrow> (Inr None, print (Generation_failed stability e) st2)
             | Status code artifacts \<Rightarrow>
                 if code = 200 then
                   (case artifacts of
                      [] \<Rightarrow> (Inr None, st2)
                    | image_data # _ \<Rightarrow>
                       (case save_asset w req image_data ''png'' ''stability'' st2 of
                          (Inl e, st3) \<Rightarrow> (Inr None, print (Generation_failed stability e) st3)
                        | (Inr asset, st3) \<Rightarrow> (Inr (Some asset), st3)))
                 else (Inr None, print (API_error stability code) st2)))"

text \<open>
  \<open>_poll_midjourney_job\<close>: \<open>poll_loop w job n i\<close> runs the last \<open>n\<close> iterations of the
  \<open>for\<close> loop, \<open>i\<close> polls having been made. Every iteration sleeps 10 seconds and sends
  one \<open>GET\<close> for the job.
\<close>

fun poll_loop :: "world \<Rightarrow> string \<Rightarrow> nat \<Rightarrow> nat \<Rightarrow> state \<Rightarrow> byte list option \<times> state" where
  "poll_loop w job_id 0 i st = (None, st)"
| "poll_loop w job_id (Suc n) i st =
     (let st1 = send (Get_job job_id) (sleep 10 st)
      in case midjourney_jobs w job_id i of
           Raises e \<Rightarrow> poll_loop w job_id n (Suc i) (print (Polling_error e) st1)
         | Status code (status, img_response) \<Rightarrow>
             if code = 200 then
               if status = ''completed'' then
                 (let st2 = send (Get_image job_id) st1
                  in case img_response of
                       Raises e \<Rightarrow> poll_loop w job_id n (Suc i) (print (Polling_error e) st2)
                     | Status img_code content \<Rightarrow>
                         if img_code = 200 then (Some content, st2)
                         else poll_loop w job_id n (Suc i) st2)
               else if status = ''failed'' then (None, print (Job_failed job_id) st1)
               else poll_loop w job_id n (Suc i) st1
             else poll_loop w job_id n (Suc i) st1)"

definition poll_midjourney_job ::
  "world \<Rightarrow> string \<Rightarrow> state \<Rightarrow> byte list option \<times> state" where
  "poll_midjourney_job w job_id st = poll_loop w job_id 30 0 st"

text \<open>
  A poll settles the job when it makes the loop return: the answer has status code 200
  and reports \<open>failed\<close>, or reports \<open>completed\<close> and the download answers 200. After
  every other poll the loop goes on. \<open>poll_count\<close> is the number of polls sent for a job.
\<close>

fun settled :: "(string \<times> byte list response) response \<Rightarrow> bool" where
  "settled (Raises e) = False"
| "settled (Status code (status, Raises e)) = (code = 200 \<and> status = ''failed'')"
| "settled (Status code (status, Status img_code content)) =
     (code = 200 \<and> (status = ''failed'' \<or> (status = ''completed'' \<and> img_code = 200)))"

definition poll_count :: "string \<Rightarrow> state \<Rightarrow> nat" where
  "poll_count job_id st = count_list (sent st) (Get_job job_id)"

text \<open>\<open>if image_data:\<close> is false for \<open>None\<close> and for the empty byte string.\<close>

definition generate_with_midjourney ::
  "world \<Rightarrow> AssetRequest \<Rightarrow> state \<Rightarrow> (py_error + GeneratedAsset option) \<times> state" where
  "generate_with_midjourney w req st =
     (case limiter_wait midjourney st of
        (Inl e, st1) \<Rightarrow> (Inl e, st1)
      | (Inr _, st1) \<Rightarrow>
         (let st2 = send (Post midjourney) st1
          in case midjourney_api w req of
               Raises e \<Rightarrow> (Inr None, print (Generation_failed midjourney e) st2)
             | Status code job_id \<Rightarrow>
                 if code = 200 then
                   (case poll_midjourney_job w job_id st2 of
                      (Some image_data, st3) \<Rightarrow>
                        if image_data \<noteq> [] then
                          (case save_asset w req image_data ''png'' ''midjourney'' st3 of
                             (Inl e, st4) \<Rightarrow>
                               (Inr None, print (Generation_failed midjourney e) st4)
                           | (Inr asset, st4) \<Rightarrow> (Inr (Some asset), st4))
                        else (Inr None, st3)
                    | (None, st3) \<Rightarrow> (Inr None, st3))
                 else (Inr None, print (API_error midjourney code) st2)))"

subsection \<open>Router and the generators by type\<close>

definition generate_2d_asset ::
  "world \<Rightarrow> AssetRequest \<Rightarrow> state \<Rightarrow> (py_error + GeneratedAsset option) \<times> state" where
  "generate_2d_asset w req st =
     (if category req \<in> set [''sprite'', ''character''] then
        generate_with_nanobanana w req st
      else if category req \<in> set [''background'', ''environment''] then
        generate_with_stability w req st
      else if category req \<in> set [''ui'', ''icon''] then
        generate_with_midjourney w req st
      else generate_with_stability w req st)"

definition generate_3d_asset ::
  "world \<Rightarrow> AssetRequest \<Rightarrow> state \<Rightarrow> (py_error + GeneratedAsset option) \<times> state" where
  "generate_3d_asset w req st =
     (Inr None, print (Not_yet_implemented_3D (prompt req)) st)"

definition generate_audio_asset ::
  "world \<Rightarrow> AssetRequest \<Rightarrow> state \<Rightarrow> (py_error + GeneratedAsset option) \<times> state" where
  "generate_audio_asset w req st =
     (case limiter_wait elevenlabs st of
        (Inl e, st1) \<Rightarrow> (Inl e, st1)
      | (Inr _, st1) \<Rightarrow> (Inr None, print (Not_yet_implemented_audio (prompt req)) st1))"

text \<open>
  The routing table of the specification for requests of type image (\<open>2d\<close>), written
  from its words: sprite and character go to provider A (nanobanana), background and
  environment to provider B (stability), ui and icon to provider C (midjourney), every
  other category to provider B.
\<close>

definition spec_select_provider :: "string \<Rightarrow> service" where
  "spec_select_provider c =
     (if c = ''sprite'' \<or> c = ''character'' then nanobanana
      else if c = ''background'' \<or> c = ''environment'' then stability
      else if c = ''ui'' \<or> c = ''icon'' then midjourney
      else stability)"

text \<open>The generator of the source that talks to a service.\<close>

fun provider_client ::
  "service \<Rightarrow> world \<Rightarrow> AssetRequest \<Rightarrow> state
     \<Rightarrow> (py_error + GeneratedAsset option) \<times> state" where
  "provider_client nanobanana = generate_with_nanobanana"
| "provider_client stability = generate_with_stability"
| "provider_client midjourney = generate_with_midjourney"
| "provider_client elevenlabs = generate_audio_asset"

subsection \<open>BatchOrchestrator\<close>

text \<open>
  \<open>generate_single_asset\<close>: every exception raised in the \<open>try\<close> is printed and the
  function returns \<open>None\<close>; it returns \<open>None\<close> as well when the generator called does.
  The message that opens the call shows \<open>request.prompt[:50]\<close>.
\<close>

definition generate_single_asset ::
  "world \<Rightarrow> AssetRequest \<Rightarrow> state \<Rightarrow> GeneratedAsset option \<times> state" where
  "generate_single_asset w req st =
     (let start_time = clock st;
          st1 = print (Generating (type req) (take 50 (prompt req))) st
      in case (if type req = ''2d'' then generate_2d_asset w req st1
               else if type req = ''3d'' then generate_3d_asset w req st1
               else if type req = ''audio'' then generate_audio_asset w req st1
               else (Inl (ValueError (''Unknown asset type: '' @ type req)), st1)) of
           (Inl e, st2) \<Rightarrow> (None, print (Failed_to_generate_asset e) st2)
         | (Inr None, st2) \<Rightarrow> (None, st2)
         | (Inr (Some asset), st2) \<Rightarrow>
             (let elapsed = clock st2 - start_time
              in (Some (asset\<lparr>generation_time := elapsed\<rparr>),
                  print (Generated (asset_id asset) elapsed) st2)))"

text \<open>
  \<open>asyncio.gather\<close> over one task for each request, with \<open>return_exceptions=True\<close>: the
  results come in the order of the requests, \<open>Inl\<close> for a task that raised. The tasks
  are run one after the other here; the number and the order of the results do not
  depend on how the event loop interleaves them.
\<close>

fun gather ::
  "world \<Rightarrow> AssetRequest list \<Rightarrow> state \<Rightarrow> (py_error + GeneratedAsset option) list \<times> state" where
  "gather w [] st = ([], st)"
| "gather w (req # reqs) st =
     (case generate_single_asset w req st of
        (result, st1) \<Rightarrow>
          (case gather w reqs st1 of
             (results, st2) \<Rightarrow> (Inr result # results, st2)))"

text \<open>
  The loop over \<open>enumerate(results)\<close>: an exception is printed, every other result is
  appended to \<open>successful_assets\<close>.
\<close>

fun collect ::
  "nat \<Rightarrow> (py_error + GeneratedAsset option) list \<Rightarrow> state
     \<Rightarrow> GeneratedAsset option list \<times> state" where
  "collect i [] st = ([], st)"
| "collect i (Inl e # results) st =
     collect (Suc i) results (print (Failed_to_generate_asset_n (i + 1) e) st)"
| "collect i (Inr result # results) st =
     (case collect (Suc i) results st of
        (successful_assets, st1) \<Rightarrow> (result # successful_assets, st1))"

definition generate_asset_batch ::
  "world \<Rightarrow> AssetRequest list \<Rightarrow> state \<Rightarrow> GeneratedAsset option list \<times> state" where
  "generate_asset_batch w reqs st =
     (case gather w reqs (print (Starting_generation (length reqs)) st) of
        (results, st1) \<Rightarrow>
          (case collect 0 results st1 of
             (successful_assets, st2) \<Rightarrow>
               (successful_assets,
                st2\<lparr>generated_assets := generated_assets st2 @ successful_assets\<rparr>)))"

text \<open>\<open>save_generation_report\<close>: the report dictionary, then the write.\<close>

definition generation_report :: "state \<Rightarrow> report" where
  "generation_report st =
     \<lparr>timestamp = clock st,
      total_assets = length (generated_assets st),
      successful_generations = length (filter (\<lambda>a. a \<noteq> None) (generated_assets st)),
      assets = map the (filter (\<lambda>a. a \<noteq> None) (generated_assets st))\<rparr>"

definition save_generation_report ::
  "world \<Rightarrow> string \<Rightarrow> state \<Rightarrow> (py_error + unit) \<times> state" where
  "save_generation_report w output_path st =
     (if \<not> writable w output_path then (Inl (OSError output_path), st)
      else (Inr (),
            print (Report_saved output_path)
              (st\<lparr>files := (files st)(output_path \<mapsto> Report (generation_report st))\<rparr>)))"

subsection \<open>Loading the configuration and \<open>main\<close>\<close>

text \<open>The \<open>for\<close> loop of \<open>load_asset_requests\<close>: it stops at the first item that raises.\<close>

fun build_requests :: "item list \<Rightarrow> py_error + AssetRequest list" where
  "build_requests [] = Inr []"
| "build_requests (it # items) =
     (case AssetRequest_init it of
        Inl e \<Rightarrow> Inl e
      | Inr req \<Rightarrow>
         (case build_requests items of
            Inl e \<Rightarrow> Inl e
          | Inr reqs \<Rightarrow> Inr (req # reqs)))"

text \<open>
  \<open>load_asset_requests\<close> on the content of the file: every exception gives the message
  and the empty list; a document without the key \<open>assets\<close> gives the empty list.
\<close>

definition load_asset_requests :: "config_data \<Rightarrow> AssetRequest list \<times> line list" where
  "load_asset_requests content =
     (case content of
        Unreadable e \<Rightarrow> ([], [Failed_to_load e])
      | Document None \<Rightarrow> ([], [])
      | Document (Some items) \<Rightarrow>
         (case build_requests items of
            Inl e \<Rightarrow> ([], [Failed_to_load e])
          | Inr reqs \<Rightarrow> (reqs, [])))"

record args =
  config :: string
  project_root_arg :: string
  output_report :: "string option"

text \<open>
  How the process ends: \<open>sys.exit n\<close>, a normal return of \<open>main\<close> (status 0), or an
  exception that nothing catches (status 1).
\<close>

datatype ending = Exit nat | Returned | Uncaught py_error

fun exit_status :: "ending \<Rightarrow> nat" where
  "exit_status (Exit n) = n"
| "exit_status Returned = 0"
| "exit_status (Uncaught e) = 1"

text \<open>\<open>main\<close>, started when the clock reads \<open>now\<close>; the result carries the lines printed.\<close>

definition main :: "world \<Rightarrow> args \<Rightarrow> real \<Rightarrow> ending \<times> line list" where
  "main w a now =
     (case read_config w (config a) of
        None \<Rightarrow> (Exit 1, [Config_not_found (config a)])
      | Some content \<Rightarrow>
         (case load_asset_requests content of
            (asset_requests, out) \<Rightarrow>
              if asset_requests = [] then (Exit 1, out @ [No_valid_requests])
              else
               (let out1 = out @ [Pipeline_started (project_root_arg a) (config a)
                                    (length asset_requests)];
                    generator = AssetGenerator_init (project_root_arg a) now
                in case generate_asset_batch w asset_requests generator of
                     (generated, st) \<Rightarrow>
                       (let report_path =
                              (case output_report a of
                                 Some p \<Rightarrow> p
                               | None \<Rightarrow>
                                   path_join
                                     (path_join (path_join (project_root_arg a) ''assets'')
                                        ''generated'')
                                     ''generation_report.json'')
                        in case save_generation_report w report_path st of
                             (Inl e, st1) \<Rightarrow> (Uncaught e, out1 @ stdout st1)
                           | (Inr _, st1) \<Rightarrow>
                               (Returned,
                                out1 @ stdout st1 @ [Completed (length generated)])))))"

subsection \<open>A stub world and example inputs\<close>

text \<open>
  A stub for the services: the fast service always answers 500, the diffusion service
  always returns one artifact, the queued service accepts the job and reports it
  failed at the first poll; every file can be written.
\<close>

definition stub_world :: world where
  "stub_world =
     \<lparr>nanobanana_api = (\<lambda>req. Status 500 []),
      stability_api = (\<lambda>req. Status 200 [[1, 2, 3]]),
      midjourney_api = (\<lambda>req. Status 200 ''job-1''),
      midjourney_jobs = (\<lambda>job n. Status 200 (''failed'', Status 404 [])),
      writable = (\<lambda>path. True),
      read_config = Map.empty\<rparr>"

text \<open>
  Two more stubs of the queued service: one completes the job at the third poll, the
  other never leaves \<open>processing\<close>.
\<close>

definition slow_world :: world where
  "slow_world = stub_world
     \<lparr>midjourney_jobs := (\<lambda>job n. if n < 2 then Status 200 (''processing'', Status 404 [])
                                  else Status 200 (''completed'', Status 200 [7, 7]))\<rparr>"

definition stuck_world :: world where
  "stuck_world = stub_world
     \<lparr>midjourney_jobs := (\<lambda>job n. Status 200 (''processing'', Status 404 []))\<rparr>"

text \<open>A configuration item with the three required keys only.\<close>

definition json_item :: "string \<Rightarrow> string \<Rightarrow> string \<Rightarrow> json_object" where
  "json_item p t c =
     \<lparr>item_prompt = Some p, item_type = Some t, item_category = Some c,
      item_style = None, item_width = None, item_height = None, item_duration = None,
      item_quality = None, item_tags = None, item_metadata = None, item_other_keys = []\<rparr>"

text \<open>The request such an item constructs.\<close>

definition plain_request :: "string \<Rightarrow> string \<Rightarrow> string \<Rightarrow> AssetRequest" where
  "plain_request p t c =
     \<lparr>prompt = p, type = t, category = c, style = ''cyberpunk'', width = 512, height = 512,
      duration = 2, quality = 8 / 10, tags = [], metadata = []\<rparr>"

text \<open>A configuration whose second item has a key that is not a field.\<close>

definition broken_config :: "item list" where
  "broken_config =
     [Object (json_item ''a robot'' ''2d'' ''sprite''),
      Object ((json_item ''a city'' ''2d'' ''background'')\<lparr>item_other_keys := [''colour'']\<rparr>)]"

definition example_args :: args where
  "example_args =
     \<lparr>config = ''assets.json'', project_root_arg = ''/proj'', output_report = None\<rparr>"

text \<open>
  A batch of three requests: the first goes to the fast service (which fails in the
  stub), the second has the type \<open>audio\<close>, the third goes to the diffusion service
  (which succeeds). A configuration with one item of type \<open>audio\<close>.
\<close>

definition mixed_batch :: "AssetRequest list" where
  "mixed_batch =
     [plain_request ''a robot'' ''2d'' ''sprite'',
      plain_request ''a chime'' ''audio'' ''sfx'',
      plain_request ''neon alley'' ''2d'' ''background'']"

definition audio_config :: "item list" where
  "audio_config = [Object (json_item ''a chime'' ''audio'' ''sfx'')]"

section \<open>Properties\<close>

subsection \<open>The digests on test vectors\<close>

lemma md5_hexdigest_abc:
  "md5_hexdigest (encode_utf8 ''abc'') = ''900150983cd24fb0d6963f7d28e17f72''"
  by code_simp

lemma sha256_hexdigest_abc:
  "sha256_hexdigest (encode_utf8 ''abc'')
     = ''ba7816bf8f01cfea414140de5dae2223b00361a396177a9cb410ff61f20015ad''"
  by code_simp

subsection \<open>RateLimiter\<close>

text \<open>
  C1 (the code departs from the claim). The claim: for every quota \<open>Q > 0\<close>, serialized
  calls through one limiter never give more than \<open>Q\<close> admissions in a rolling window
  of 60 seconds. With quota 1 and calls entering at 0, 10 and 70 seconds, each after
  the previous one has returned, the second call sleeps 50 seconds and returns at 60,
  but the limiter records its entry time 10; at 70 that record has expired and the
  third call is admitted at once. The admissions at 60 and 70 lie in one window.
\<close>

theorem wait_quota_1_two_admissions_in_window:
  "admissions (RateLimiter_init 1) [0, 10, 70] = [0, 60, 70]
   \<and> serialized [0, 10, 70] (admissions (RateLimiter_init 1) [0, 10, 70])
   \<and> in_window 60 (admissions (RateLimiter_init 1) [0, 10, 70]) = 2"
  by (simp add: RateLimiter_init_def wait_def in_window_def)

text \<open>
  The same with the quota configured for the queued service: five calls at 0, one at
  10 (it returns at 60), four at 61 and one at 62 (it returns at 70) give six admissions
  in the window that starts at 60.
\<close>

lemma wait_quota_5_six_admissions_in_window:
  "admissions (RateLimiter_init (rate_limit midjourney)) [0, 0, 0, 0, 0, 10, 61, 61, 61, 61, 62]
     = [0, 0, 0, 0, 0, 60, 61, 61, 61, 61, 70]
   \<and> serialized [0, 0, 0, 0, 0, 10, 61, 61, 61, 61, 62] [0, 0, 0, 0, 0, 60, 61, 61, 61, 61, 70]
   \<and> in_window 60 [0, 0, 0, 0, 0, 60, 61, 61, 61, 61, 70] = 6"
  by (simp add: RateLimiter_init_def wait_def in_window_def)

text \<open>
  C9 (the claim as stated fails). The claim: a quota of 0 is rejected when the limiter
  is constructed. The constructor stores any quota: for 0 it returns a limiter.
\<close>

theorem RateLimiter_init_0_constructs:
  "RateLimiter_init 0 = \<lparr>requests_per_minute = 0, requests = []\<rparr>"
  by (simp add: RateLimiter_init_def)

text \<open>
  C9 (amended). A limiter constructed with quota 0 is not rejected; every \<open>wait\<close> on it
  raises \<open>IndexError\<close> and records nothing, so the limiter stays as constructed and
  never admits a call.
\<close>

theorem wait_quota_0_raises:
  "wait now (RateLimiter_init 0) = (Inl IndexError, RateLimiter_init 0)
   \<and> admissions (RateLimiter_init 0) (now # nows) = []"
  by (simp add: RateLimiter_init_def wait_def)

subsection \<open>Loading the configuration\<close>

text \<open>An item with the three required keys constructs, whatever its type.\<close>

lemma AssetRequest_init_any_type:
  "AssetRequest_init (Object (json_item p t c)) = Inr (plain_request p t c)"
  by (simp add: json_item_def plain_request_def or_default_def)

lemma build_requests_fails:
  "it \<in> set items \<Longrightarrow> AssetRequest_init it = Inl e \<Longrightarrow> \<exists>e'. build_requests items = Inl e'"
  by (induction items) (auto split: sum.splits)

lemma build_requests_all:
  "list_all2 (\<lambda>it req. AssetRequest_init it = Inr req) items reqs
     \<Longrightarrow> build_requests items = Inr reqs"
  by (induction rule: list_all2_induct) auto

text \<open>
  C10. If one item of the \<open>assets\<close> array fails the construction of its
  \<open>AssetRequest\<close>, \<open>load_asset_requests\<close> returns the empty list, whatever the other
  items are, and \<open>main\<close> ends with exit status 1, as it does for an empty array.
\<close>

theorem load_asset_requests_one_bad_item:
  assumes "it \<in> set items" and "AssetRequest_init it = Inl e"
    and "read_config w (config a) = Some (Document (Some items))"
  shows "fst (load_asset_requests (Document (Some items))) = []
         \<and> fst (main w a now) = Exit 1
         \<and> exit_status (fst (main w a now)) = 1
         \<and> fst (main w a now)
             = fst (main (w\<lparr>read_config := (read_config w)(config a \<mapsto> Document (Some []))\<rparr>)
                      a now)"
proof -
  from build_requests_fails [OF assms(1,2)]
  obtain e' where "build_requests items = Inl e'" ..
  then have "load_asset_requests (Document (Some items)) = ([], [Failed_to_load e'])"
    by (simp add: load_asset_requests_def)
  then show ?thesis
    using assms(3) by (simp add: main_def load_asset_requests_def)
qed

theorem load_asset_requests_one_bad_item_witness:
  "fst (load_asset_requests (Document (Some broken_config))) = []
   \<and> fst (main (stub_world\<lparr>read_config := [''assets.json'' \<mapsto> Document (Some broken_config)]\<rparr>)
            example_args 0) = Exit 1"
  using load_asset_requests_one_bad_item
    [of "Object ((json_item ''a city'' ''2d'' ''background'')\<lparr>item_other_keys := [''colour'']\<rparr>)"
      broken_config "TypeError ''unexpected keyword argument colour''"
      "stub_world\<lparr>read_config := [''assets.json'' \<mapsto> Document (Some broken_config)]\<rparr>"
      example_args 0]
  by (simp add: json_item_def broken_config_def example_args_def)

text \<open>
  C4 (the claim as stated fails). The claim: an item whose type is not one of the
  recognized kinds is rejected when the configuration is loaded, and no error about an
  unrecognized type can occur at generation time. An item of type \<open>video\<close> is loaded
  as a request, and generating it raises the \<open>ValueError\<close> of \<open>generate_single_asset\<close>.
\<close>

theorem unknown_type_is_loaded_and_fails_at_generation:
  "fst (load_asset_requests (Document (Some [Object (json_item ''a clip'' ''video'' ''sprite'')])))
     = [plain_request ''a clip'' ''video'' ''sprite'']
   \<and> stdout (snd (generate_single_asset stub_world (plain_request ''a clip'' ''video'' ''sprite'')
                    (AssetGenerator_init ''/proj'' 0)))
     = [Generating ''video'' ''a clip'',
        Failed_to_generate_asset (ValueError ''Unknown asset type: video'')]"
  by (simp add: load_asset_requests_def json_item_def plain_request_def or_default_def
      generate_single_asset_def print_def AssetGenerator_init_def)

text \<open>
  C4 (amended). The loader does not look at the type: when every item of the array
  constructs, all the requests are returned, whatever their types. A request whose
  type is none of \<open>2d\<close>, \<open>3d\<close>, \<open>audio\<close> is refused at generation time:
  \<open>generate_single_asset\<close> raises \<open>ValueError\<close>, catches it, prints it and returns \<open>None\<close>.
\<close>

theorem unknown_type_accepted_at_load_refused_at_generation:
  assumes "list_all2 (\<lambda>it req. AssetRequest_init it = Inr req) items reqs"
    and "req \<in> set reqs" and "type req \<notin> {''2d'', ''3d'', ''audio''}"
  shows "fst (load_asset_requests (Document (Some items))) = reqs
     \<and> generate_single_asset w req st =
         (None, print (Failed_to_generate_asset (ValueError (''Unknown asset type: '' @ type req)))
                  (print (Generating (type req) (take 50 (prompt req))) st))"
  using assms(3) build_requests_all [OF assms(1)]
  by (simp add: load_asset_requests_def generate_single_asset_def)

theorem unknown_type_accepted_at_load_refused_at_generation_witness:
  "fst (load_asset_requests (Document (Some [Object (json_item ''a clip'' ''video'' ''sprite'')])))
     = [plain_request ''a clip'' ''video'' ''sprite'']
   \<and> fst (generate_single_asset stub_world (plain_request ''a clip'' ''video'' ''sprite'')
            (AssetGenerator_init ''/proj'' 0)) = None"
  using unknown_type_accepted_at_load_refused_at_generation
    [of "[Object (json_item ''a clip'' ''video'' ''sprite'')]"
        "[plain_request ''a clip'' ''video'' ''sprite'']"
        "plain_request ''a clip'' ''video'' ''sprite''" stub_world
        "AssetGenerator_init ''/proj'' 0"]
  by (simp add: json_item_def plain_request_def or_default_def)

subsection \<open>ArtifactStore\<close>

lemma output_dirs_cases:
  "output_dirs t = Some dir \<Longrightarrow>
     (t = ''2d'' \<and> dir = ''assets/generated/2d'') \<or> (t = ''3d'' \<and> dir = ''assets/generated/3d'')
     \<or> (t = ''audio'' \<and> dir = ''assets/generated/audio'')
     \<or> (t = ''metadata'' \<and> dir = ''assets/generated/metadata'')"
  by (simp add: output_dirs_def split: if_splits)

text \<open>The artifact and its sidecar are two files, but for a \<open>json\<close> artifact of type \<open>metadata\<close>.\<close>

lemma artifact_path_neq_sidecar_path:
  assumes "output_dirs t = Some dir" and "\<not> (t = ''metadata'' \<and> format = ''json'')"
  shows "path_join (path_join r dir) (i @ ''.'' @ format)
         \<noteq> path_join (path_join r ''assets/generated/metadata'') (i @ ''.json'')"
  using output_dirs_cases [OF assms(1)] assms(2)
  by (auto simp: path_join_def)

text \<open>
  C7. When \<open>_save_asset\<close> returns an asset, its checksum is the SHA-256 digest (in hex)
  of the bytes passed in, and the file at its \<open>file_path\<close> holds exactly those bytes.
  The generators always pass the format \<open>png\<close>; the statement covers every format and
  type but the one pair for which the sidecar has the path of the artifact.
\<close>

theorem save_asset_checksum_and_round_trip:
  assumes "save_asset w req data format service st = (Inr asset, st')"
    and "\<not> (type req = ''metadata'' \<and> format = ''json'')"
  shows "checksum asset = sha256_hexdigest data
         \<and> files st' (file_path asset) = Some (Binary data)"
proof (cases "output_dirs (type req)")
  case None
  with assms(1) show ?thesis by (simp add: save_asset_def)
next
  case (Some dir)
  note neq = artifact_path_neq_sidecar_path [OF Some assms(2)]
  from assms(1) Some neq show ?thesis
    by (auto simp: save_asset_def Let_def split: if_splits)
qed

theorem save_asset_checksum_and_round_trip_witness:
  "case save_asset stub_world (plain_request ''neon alley'' ''2d'' ''background'') [1, 2, 3]
          ''png'' ''stability'' (AssetGenerator_init ''/proj'' 0) of
     (Inr asset, st') \<Rightarrow>
        checksum asset = sha256_hexdigest [1, 2, 3]
        \<and> files st' (file_path asset) = Some (Binary [1, 2, 3])
   | (Inl e, st') \<Rightarrow> False"
proof -
  have "\<exists>asset st'. save_asset stub_world (plain_request ''neon alley'' ''2d'' ''background'')
          [1, 2, 3] ''png'' ''stability'' (AssetGenerator_init ''/proj'' 0) = (Inr asset, st')"
    by (simp add: save_asset_def stub_world_def plain_request_def output_dirs_def Let_def)
  then obtain asset st' where e: "save_asset stub_world
      (plain_request ''neon alley'' ''2d'' ''background'') [1, 2, 3] ''png'' ''stability''
      (AssetGenerator_init ''/proj'' 0) = (Inr asset, st')" by blast
  from save_asset_checksum_and_round_trip [OF e] e
  show ?thesis by (simp add: plain_request_def)
qed

subsection \<open>Identifiers\<close>

lemma length_hex_string: "length (hex_string bs) = 2 * length bs"
  by (induction bs) (simp_all add: hex_string_def hex_byte_def)

lemma length_md5_hexdigest: "length (md5_hexdigest m) = 32"
  by (simp add: md5_hexdigest_def md5_digest_def length_hex_string le_bytes32_def split: prod.splits)

text \<open>
  In one second, two identifiers are equal exactly when the \<open>type_category\<close> prefixes and
  the short hashes are.
\<close>

lemma generate_asset_id_eq_iff:
  assumes "py_int now1 = py_int now2"
  shows "generate_asset_id now1 r1 = generate_asset_id now2 r2 \<longleftrightarrow>
     type r1 @ ''_'' @ category r1 = type r2 @ ''_'' @ category r2
     \<and> take 8 (md5_hexdigest (encode_utf8
          (prompt r1 @ ''-'' @ type r1 @ ''-'' @ category r1 @ ''-'' @ style r1)))
       = take 8 (md5_hexdigest (encode_utf8
          (prompt r2 @ ''-'' @ type r2 @ ''-'' @ category r2 @ ''-'' @ style r2)))"
proof -
  let ?h1 = "take 8 (md5_hexdigest (encode_utf8
      (prompt r1 @ ''-'' @ type r1 @ ''-'' @ category r1 @ ''-'' @ style r1)))"
  let ?h2 = "take 8 (md5_hexdigest (encode_utf8
      (prompt r2 @ ''-'' @ type r2 @ ''-'' @ category r2 @ ''-'' @ style r2)))"
  let ?ts = "str_int (py_int now2)"
  have len: "length (''_'' @ ?h1 @ ''_'' @ ?ts) = length (''_'' @ ?h2 @ ''_'' @ ?ts)"
    by (simp add: length_md5_hexdigest)
  have "generate_asset_id now1 r1 = generate_asset_id now2 r2 \<longleftrightarrow>
      (type r1 @ ''_'' @ category r1) @ (''_'' @ ?h1 @ ''_'' @ ?ts)
      = (type r2 @ ''_'' @ category r2) @ (''_'' @ ?h2 @ ''_'' @ ?ts)"
    using assms by (simp add: generate_asset_id_def Let_def)
  also have "\<dots> \<longleftrightarrow> type r1 @ ''_'' @ category r1 = type r2 @ ''_'' @ category r2
      \<and> ''_'' @ ?h1 @ ''_'' @ ?ts = ''_'' @ ?h2 @ ''_'' @ ?ts"
    using len append_eq_append_conv by blast
  also have "\<dots> \<longleftrightarrow> type r1 @ ''_'' @ category r1 = type r2 @ ''_'' @ category r2 \<and> ?h1 = ?h2"
    by simp
  finally show ?thesis .
qed

text \<open>The short hashes of two joined contents, computed.\<close>

lemma md5_prefix_p23538:
  "take 8 (md5_hexdigest (encode_utf8 ''p23538-2d-sprite-cyberpunk'')) = ''e56c894d''"
  by code_simp

lemma md5_prefix_p101303:
  "take 8 (md5_hexdigest (encode_utf8 ''p101303-2d-sprite-cyberpunk'')) = ''e56c894d''"
  by code_simp

text \<open>
  C8 (the claim as stated fails). The claim: in one time bucket, two inputs that differ
  in one of prompt, type, category, style get different identifiers. The identifier
  keeps 8 hex digits of the MD5 of the joined fields: the prompts \<open>p23538\<close> and
  \<open>p101303\<close>, with the other fields equal, give the same identifier.
\<close>

theorem generate_asset_id_prompt_collision:
  "plain_request ''p23538'' ''2d'' ''sprite'' \<noteq> plain_request ''p101303'' ''2d'' ''sprite''
   \<and> generate_asset_id 1700000000 (plain_request ''p23538'' ''2d'' ''sprite'')
     = generate_asset_id 1700000000 (plain_request ''p101303'' ''2d'' ''sprite'')"
  by (simp add: generate_asset_id_def plain_request_def md5_prefix_p23538 md5_prefix_p101303)

text \<open>
  C8 (amended). For two clock readings in the same second: requests with the same
  prompt, type, category and style get the same identifier; requests that differ in
  the type only, or in the category only, get different identifiers; requests with
  the same type and category get the same identifier exactly when the first 8 hex
  digits of the MD5 of \<open>prompt-type-category-style\<close> are the same.
\<close>

theorem generate_asset_id_same_bucket:
  assumes "py_int now1 = py_int now2"
  shows "(prompt r1 = prompt r2 \<and> type r1 = type r2 \<and> category r1 = category r2 \<and> style r1 = style r2
            \<longrightarrow> generate_asset_id now1 r1 = generate_asset_id now2 r2)
       \<and> (type r1 \<noteq> type r2 \<and> category r1 = category r2
            \<longrightarrow> generate_asset_id now1 r1 \<noteq> generate_asset_id now2 r2)
       \<and> (type r1 = type r2 \<and> category r1 \<noteq> category r2
            \<longrightarrow> generate_asset_id now1 r1 \<noteq> generate_asset_id now2 r2)
       \<and> (type r1 = type r2 \<and> category r1 = category r2
            \<longrightarrow> (generate_asset_id now1 r1 = generate_asset_id now2 r2
                 \<longleftrightarrow> take 8 (md5_hexdigest (encode_utf8
                        (prompt r1 @ ''-'' @ type r1 @ ''-'' @ category r1 @ ''-'' @ style r1)))
                     = take 8 (md5_hexdigest (encode_utf8
                        (prompt r2 @ ''-'' @ type r2 @ ''-'' @ category r2 @ ''-'' @ style r2)))))"
  using generate_asset_id_eq_iff [OF assms, of r1 r2]
  by auto

theorem generate_asset_id_same_bucket_witness:
  "py_int (1002 / 10) = py_int (1007 / 10)
   \<and> generate_asset_id (1002 / 10) (plain_request ''a robot'' ''2d'' ''sprite'')
       = generate_asset_id (1007 / 10) ((plain_request ''a robot'' ''2d'' ''sprite'')\<lparr>width := 64\<rparr>)
   \<and> generate_asset_id (1002 / 10) (plain_request ''a robot'' ''2d'' ''sprite'')
       \<noteq> generate_asset_id (1007 / 10) (plain_request ''a robot'' ''3d'' ''sprite'')
   \<and> generate_asset_id (1002 / 10) (plain_request ''a robot'' ''2d'' ''sprite'')
       \<noteq> generate_asset_id (1007 / 10) (plain_request ''a robot'' ''2d'' ''icon'')"
  using generate_asset_id_same_bucket [of "1002 / 10" "1007 / 10" "plain_request ''a robot'' ''2d'' ''sprite''"
        "(plain_request ''a robot'' ''2d'' ''sprite'')\<lparr>width := 64\<rparr>"]
    generate_asset_id_same_bucket [of "1002 / 10" "1007 / 10" "plain_request ''a robot'' ''2d'' ''sprite''"
        "plain_request ''a robot'' ''3d'' ''sprite''"]
    generate_asset_id_same_bucket [of "1002 / 10" "1007 / 10" "plain_request ''a robot'' ''2d'' ''sprite''"
        "plain_request ''a robot'' ''2d'' ''icon''"]
  by (simp add: py_int_def plain_request_def)

subsection \<open>Router\<close>

lemma save_asset_service_used:
  "save_asset w req data format service st = (Inr asset, st') \<Longrightarrow> service_used asset = service"
  by (auto simp: save_asset_def Let_def split: option.splits if_splits)

lemma nanobanana_service_used:
  "generate_with_nanobanana w req st = (Inr (Some asset), st') \<Longrightarrow> service_used asset = ''nanobanana''"
  by (auto simp: generate_with_nanobanana_def Let_def
      split: prod.splits sum.splits response.splits if_splits dest: save_asset_service_used)

lemma stability_service_used:
  "generate_with_stability w req st = (Inr (Some asset), st') \<Longrightarrow> service_used asset = ''stability''"
  by (auto simp: generate_with_stability_def Let_def
      split: prod.splits sum.splits response.splits if_splits list.splits dest: save_asset_service_used)

lemma midjourney_service_used:
  "generate_with_midjourney w req st = (Inr (Some asset), st') \<Longrightarrow> service_used asset = ''midjourney''"
  by (auto simp: generate_with_midjourney_def Let_def
      split: prod.splits sum.splits response.splits if_splits option.splits dest: save_asset_service_used)

lemma audio_no_asset:
  "generate_audio_asset w req st \<noteq> (Inr (Some asset), st')"
  by (auto simp: generate_audio_asset_def split: prod.splits sum.splits)

text \<open>
  C5. For a request of type image the provider is a function of the category, and it is
  the one the table gives: \<open>_generate_2d_asset\<close> runs the generator of the service
  selected by the table, and an asset it returns names that service.
\<close>

theorem generate_2d_asset_follows_table:
  "generate_2d_asset w req st = provider_client (spec_select_provider (category req)) w req st
   \<and> (\<forall>asset st'. generate_2d_asset w req st = (Inr (Some asset), st')
        \<longrightarrow> service_used asset = service_name (spec_select_provider (category req)))"
proof -
  have eq: "generate_2d_asset w req st = provider_client (spec_select_provider (category req)) w req st"
    by (simp add: generate_2d_asset_def spec_select_provider_def)
  have "service_used asset = service_name s" if "provider_client s w req st = (Inr (Some asset), st')"
    for s asset st'
    using that
    by (cases s) (auto dest: nanobanana_service_used stability_service_used midjourney_service_used
        simp: audio_no_asset)
  with eq show ?thesis by auto
qed

theorem generate_2d_asset_follows_table_witness:
  "case generate_2d_asset stub_world (plain_request ''neon alley'' ''2d'' ''background'')
          (AssetGenerator_init ''/proj'' 0) of
     (Inr (Some asset), st') \<Rightarrow> service_used asset = ''stability''
   | _ \<Rightarrow> False"
proof -
  have "\<exists>asset st'. generate_2d_asset stub_world (plain_request ''neon alley'' ''2d'' ''background'')
          (AssetGenerator_init ''/proj'' 0) = (Inr (Some asset), st')"
    by (simp add: generate_2d_asset_def generate_with_stability_def limiter_wait_def wait_def
        save_asset_def stub_world_def AssetGenerator_init_def RateLimiter_init_def
        plain_request_def output_dirs_def Let_def send_def)
  then obtain asset st' where e: "generate_2d_asset stub_world
      (plain_request ''neon alley'' ''2d'' ''background'') (AssetGenerator_init ''/proj'' 0)
      = (Inr (Some asset), st')" by blast
  from generate_2d_asset_follows_table [of stub_world "plain_request ''neon alley'' ''2d'' ''background''"
      "AssetGenerator_init ''/proj'' 0"] e
  show ?thesis by (simp add: spec_select_provider_def plain_request_def)
qed


subsection \<open>The poll loop of the queued service\<close>

lemma poll_step:
  assumes "\<not> settled (midjourney_jobs w job i)"
  shows "\<exists>st1. poll_loop w job (Suc n) i st = poll_loop w job n (Suc i) st1
          \<and> poll_count job st1 = poll_count job st + 1 \<and> clock st1 = clock st + 10"
  using assms
  by (cases "midjourney_jobs w job i" rule: settled.cases)
     (auto simp: Let_def poll_count_def send_def sleep_def print_def)

lemma poll_prefix:
  "k \<le> n \<Longrightarrow> \<forall>j<k. \<not> settled (midjourney_jobs w job (i + j)) \<Longrightarrow>
     \<exists>st1. poll_loop w job n i st = poll_loop w job (n - k) (i + k) st1
          \<and> poll_count job st1 = poll_count job st + k \<and> clock st1 = clock st + 10 * real k"
proof (induction k arbitrary: n i st)
  case 0
  then show ?case by auto
next
  case (Suc k)
  then obtain n' where n: "n = Suc n'" and kn: "k \<le> n'" by (cases n) auto
  from Suc.prems(2) have "\<not> settled (midjourney_jobs w job i)" by force
  from poll_step [OF this, of n' st] obtain st1 where
    s1: "poll_loop w job (Suc n') i st = poll_loop w job n' (Suc i) st1"
    "poll_count job st1 = poll_count job st + 1" "clock st1 = clock st + 10" by blast
  from Suc.prems(2) have "\<forall>j<k. \<not> settled (midjourney_jobs w job (Suc i + j))" by force
  from Suc.IH [OF kn this, of st1] obtain st2 where
    s2: "poll_loop w job n' (Suc i) st1 = poll_loop w job (n' - k) (Suc i + k) st2"
    "poll_count job st2 = poll_count job st1 + k" "clock st2 = clock st1 + 10 * real k" by blast
  show ?case
    apply (rule exI [of _ st2])
    using n s1 s2 by (simp add: algebra_simps)
qed

lemma poll_timeout:
  "\<forall>j<n. \<not> settled (midjourney_jobs w job (i + j)) \<Longrightarrow>
     fst (poll_loop w job n i st) = None
     \<and> poll_count job (snd (poll_loop w job n i st)) = poll_count job st + n
     \<and> clock (snd (poll_loop w job n i st)) = clock st + 10 * real n"
  using poll_prefix [of n n w job i st] by auto

lemma poll_failed:
  assumes "k < n" and "\<forall>j<k. \<not> settled (midjourney_jobs w job (i + j))"
    and "midjourney_jobs w job (i + k) = Status 200 (''failed'', img)"
  shows "fst (poll_loop w job n i st) = None
     \<and> poll_count job (snd (poll_loop w job n i st)) = poll_count job st + (k + 1)
     \<and> clock (snd (poll_loop w job n i st)) = clock st + 10 * real (k + 1)"
proof -
  from assms(1) obtain m where m: "n - k = Suc m" by (cases "n - k") auto
  from poll_prefix [of k n w job i st] assms(1,2) obtain st1 where
    s1: "poll_loop w job n i st = poll_loop w job (n - k) (i + k) st1"
    "poll_count job st1 = poll_count job st + k" "clock st1 = clock st + 10 * real k" by auto
  show ?thesis
    using s1 m assms(3)
    by (simp add: poll_count_def send_def sleep_def print_def algebra_simps)
qed

lemma poll_completed:
  assumes "k < n" and "\<forall>j<k. \<not> settled (midjourney_jobs w job (i + j))"
    and "midjourney_jobs w job (i + k) = Status 200 (''completed'', Status 200 content)"
  shows "fst (poll_loop w job n i st) = Some content
     \<and> poll_count job (snd (poll_loop w job n i st)) = poll_count job st + (k + 1)
     \<and> clock (snd (poll_loop w job n i st)) = clock st + 10 * real (k + 1)
     \<and> last (sent (snd (poll_loop w job n i st))) = Get_image job"
proof -
  from assms(1) obtain m where m: "n - k = Suc m" by (cases "n - k") auto
  from poll_prefix [of k n w job i st] assms(1,2) obtain st1 where
    s1: "poll_loop w job n i st = poll_loop w job (n - k) (i + k) st1"
    "poll_count job st1 = poll_count job st + k" "clock st1 = clock st + 10 * real k" by auto
  show ?thesis
    using s1 m assms(3)
    by (simp add: poll_count_def send_def sleep_def print_def algebra_simps)
qed

text \<open>
  C6. In \<open>_poll_midjourney_job\<close>, with the polls before poll \<open>k\<close> not settling the job:
  a poll that reports \<open>failed\<close> ends the loop with \<open>None\<close> after \<open>k + 1\<close> polls and
  \<open>10 * (k + 1)\<close> seconds, with no further poll; a poll that reports \<open>completed\<close> and
  whose download answers 200 returns the bytes downloaded, the download being the last
  request sent; a poll that reports any other
  status is followed by the next iteration; and 30 polls none of which settles the job
  end with \<open>None\<close> (the timeout) after exactly 30 polls.
\<close>

theorem poll_midjourney_job_outcomes:
  "(k < 30 \<and> (\<forall>i<k. \<not> settled (midjourney_jobs w job i))
      \<and> midjourney_jobs w job k = Status 200 (''failed'', img)
    \<longrightarrow> fst (poll_midjourney_job w job st) = None
        \<and> poll_count job (snd (poll_midjourney_job w job st)) = poll_count job st + (k + 1)
        \<and> clock (snd (poll_midjourney_job w job st)) = clock st + 10 * real (k + 1))
   \<and> (k < 30 \<and> (\<forall>i<k. \<not> settled (midjourney_jobs w job i))
      \<and> midjourney_jobs w job k = Status 200 (''completed'', Status 200 content)
    \<longrightarrow> fst (poll_midjourney_job w job st) = Some content
        \<and> last (sent (snd (poll_midjourney_job w job st))) = Get_image job
        \<and> poll_count job (snd (poll_midjourney_job w job st)) = poll_count job st + (k + 1))
   \<and> (midjourney_jobs w job i = Status 200 (status, img')
      \<and> status \<noteq> ''completed'' \<and> status \<noteq> ''failed''
    \<longrightarrow> poll_loop w job (Suc n) i st
          = poll_loop w job n (Suc i) (send (Get_job job) (sleep 10 st)))
   \<and> ((\<forall>i<30. \<not> settled (midjourney_jobs w job i))
    \<longrightarrow> fst (poll_midjourney_job w job st) = None
        \<and> poll_count job (snd (poll_midjourney_job w job st)) = poll_count job st + 30)"
proof (intro conjI impI)
  assume a: "k < 30 \<and> (\<forall>i<k. \<not> settled (midjourney_jobs w job i))
      \<and> midjourney_jobs w job k = Status 200 (''failed'', img)"
  from a poll_failed [of k 30 w job 0 img st]
  show "fst (poll_midjourney_job w job st) = None"
    and "poll_count job (snd (poll_midjourney_job w job st)) = poll_count job st + (k + 1)"
    and "clock (snd (poll_midjourney_job w job st)) = clock st + 10 * real (k + 1)"
    by (simp_all add: poll_midjourney_job_def)
next
  assume a: "k < 30 \<and> (\<forall>i<k. \<not> settled (midjourney_jobs w job i))
      \<and> midjourney_jobs w job k = Status 200 (''completed'', Status 200 content)"
  from a poll_completed [of k 30 w job 0 content st]
  show "fst (poll_midjourney_job w job st) = Some content"
    and "last (sent (snd (poll_midjourney_job w job st))) = Get_image job"
    and "poll_count job (snd (poll_midjourney_job w job st)) = poll_count job st + (k + 1)"
    by (simp_all add: poll_midjourney_job_def)
next
  assume "midjourney_jobs w job i = Status 200 (status, img')
      \<and> status \<noteq> ''completed'' \<and> status \<noteq> ''failed''"
  then show "poll_loop w job (Suc n) i st
          = poll_loop w job n (Suc i) (send (Get_job job) (sleep 10 st))"
    by simp
next
  assume a: "\<forall>i<30. \<not> settled (midjourney_jobs w job i)"
  from a poll_timeout [of 30 w job 0 st]
  show "fst (poll_midjourney_job w job st) = None"
    and "poll_count job (snd (poll_midjourney_job w job st)) = poll_count job st + 30"
    by (simp_all add: poll_midjourney_job_def)
qed

theorem poll_midjourney_job_outcomes_witness:
  "fst (poll_midjourney_job stub_world ''job-1'' (AssetGenerator_init ''/proj'' 0)) = None
   \<and> poll_count ''job-1'' (snd (poll_midjourney_job stub_world ''job-1'' (AssetGenerator_init ''/proj'' 0))) = 1
   \<and> clock (snd (poll_midjourney_job stub_world ''job-1'' (AssetGenerator_init ''/proj'' 0))) = 10
   \<and> fst (poll_midjourney_job slow_world ''job-1'' (AssetGenerator_init ''/proj'' 0)) = Some [7, 7]
   \<and> poll_count ''job-1'' (snd (poll_midjourney_job slow_world ''job-1'' (AssetGenerator_init ''/proj'' 0))) = 3
   \<and> fst (poll_midjourney_job stuck_world ''job-1'' (AssetGenerator_init ''/proj'' 0)) = None
   \<and> poll_count ''job-1'' (snd (poll_midjourney_job stuck_world ''job-1'' (AssetGenerator_init ''/proj'' 0))) = 30"
  using poll_midjourney_job_outcomes [of 0 stub_world "''job-1''" "Status 404 []" "AssetGenerator_init ''/proj'' 0"]
    poll_midjourney_job_outcomes [of 2 slow_world "''job-1''" _ "AssetGenerator_init ''/proj'' 0" "[7, 7]"]
    poll_midjourney_job_outcomes [of _ stuck_world "''job-1''" _ "AssetGenerator_init ''/proj'' 0"]
  by (simp add: stub_world_def slow_world_def stuck_world_def poll_count_def AssetGenerator_init_def)

subsection \<open>BatchOrchestrator\<close>

text \<open>The list returned by the batch has one element for each request.\<close>

lemma gather_Inr: "\<exists>rs. fst (gather w reqs st) = map Inr rs \<and> length rs = length reqs"
proof (induction reqs arbitrary: st)
  case Nil
  then show ?case by simp
next
  case (Cons req reqs)
  obtain r st1 where g: "generate_single_asset w req st = (r, st1)" by force
  from Cons [of st1] obtain rs where "fst (gather w reqs st1) = map Inr rs" "length rs = length reqs"
    by blast
  with g show ?case
    by (auto simp: split: prod.splits intro!: exI [of _ "r # rs"])
qed

lemma collect_Inr: "fst (collect i (map Inr rs) st) = rs"
proof (induction rs arbitrary: i st)
  case Nil
  then show ?case by simp
next
  case (Cons r rs)
  from Cons [of "Suc i" st] show ?case
    by (cases "collect (Suc i) (map Inr rs) st") simp
qed

lemma generate_asset_batch_length:
  "length (fst (generate_asset_batch w reqs st)) = length reqs"
proof -
  obtain results st1 where g: "gather w reqs (print (Starting_generation (length reqs)) st) = (results, st1)"
    by force
  from gather_Inr [of w reqs "print (Starting_generation (length reqs)) st"] g
  obtain rs where "results = map Inr rs" "length rs = length reqs" by auto
  with g collect_Inr [of 0 rs st1] show ?thesis
    by (auto simp: generate_asset_batch_def split: prod.splits)
qed

lemmas run_defs = generate_asset_batch_def generate_single_asset_def generate_2d_asset_def
  generate_3d_asset_def generate_audio_asset_def generate_with_nanobanana_def
  generate_with_stability_def limiter_wait_def wait_def save_asset_def
  AssetGenerator_init_def RateLimiter_init_def plain_request_def print_def send_def sleep_def
  stub_world_def output_dirs_def Let_def

text \<open>
  C3 (the code departs from the claim). The claim: a request of a type without provider
  is a skip, never in the list of successful results and not counted as successful.
  For a batch of one \<open>audio\<close> request nothing is raised and no failure is printed, but
  \<open>generate_asset_batch\<close> returns the list \<open>[None]\<close>: the skipped request has its element
  in \<open>successful_assets\<close>, and \<open>main\<close> reports one asset generated successfully.
\<close>

theorem audio_request_kept_in_successful_assets:
  "generate_asset_batch stub_world [plain_request ''a chime'' ''audio'' ''sfx'']
      (AssetGenerator_init ''/proj'' 0)
    = ([None],
       (AssetGenerator_init ''/proj'' 0)
         \<lparr>generated_assets := [None],
          rate_limiters := (\<lambda>s. RateLimiter_init (rate_limit s))
             (elevenlabs := \<lparr>requests_per_minute = 20, requests = [0]\<rparr>),
          stdout := [Starting_generation 1, Generating ''audio'' ''a chime'',
                     Not_yet_implemented_audio ''a chime'']\<rparr>)
   \<and> main (stub_world\<lparr>read_config := [''assets.json'' \<mapsto> Document (Some audio_config)]\<rparr>)
        example_args 0
    = (Returned,
       [Pipeline_started ''/proj'' ''assets.json'' 1, Starting_generation 1,
        Generating ''audio'' ''a chime'', Not_yet_implemented_audio ''a chime'',
        Report_saved ''/proj/assets/generated/generation_report.json'', Completed 1])"
  by (simp add: run_defs main_def load_asset_requests_def audio_config_def json_item_def
      or_default_def example_args_def save_generation_report_def path_join_def)

text \<open>
  C2 (the code departs from the claim). The claim: with \<open>N\<close> requests of which \<open>K\<close> fail
  and \<open>M\<close> have an unsupported type, the batch returns \<open>N - K - M\<close> elements and the
  report counts \<open>N - K - M\<close> successes. For the three requests of \<open>mixed_batch\<close>
  (\<open>K = 1\<close>, \<open>M = 1\<close>) the list returned has three elements, two of them \<open>None\<close>; the
  report counts one success out of three.
\<close>

theorem mixed_batch_returns_one_element_per_request:
  "length mixed_batch = 3
   \<and> (case generate_asset_batch stub_world mixed_batch (AssetGenerator_init ''/proj'' 0) of
        (successful_assets, st') \<Rightarrow>
          length successful_assets = 3
          \<and> map (\<lambda>a. a = None) successful_assets = [True, True, False]
          \<and> total_assets (generation_report st') = 3
          \<and> successful_generations (generation_report st') = 1)"
  by (simp add: run_defs mixed_batch_def generation_report_def)


end
